theory Spec2Isabelle
  imports Main "HOL-Library.Word" "HOL-Library.Multiset"
begin

section \<open>Values of the JavaScript runtime\<close>

text \<open>
  \<^verbatim>\<open>index.js\<close> is a Node.js module. A JavaScript string is modelled as the list of
  the bytes of its UTF-8 encoding (\<^typ>\<open>string\<close>), so that
  \<^verbatim>\<open>new Buffer(contents, 'utf8')\<close> keeps the bytes and only changes the type; the
  separators \<^verbatim>\<open>/\<close> and \<^verbatim>\<open>\\<close> are single bytes in UTF-8 and never part of
  a longer sequence, so splitting and replacing them works on the bytes.
\<close>

type_synonym byte = "8 word"
type_synonym bytes = "byte list"

text \<open>The error codes of the file system calls the module makes.\<close>

datatype errno = ENOENT | ENOTDIR | EEXIST | EISDIR

text \<open>
  The values that reach a callback: \<^verbatim>\<open>undefined\<close>, \<^verbatim>\<open>null\<close>, booleans, numbers,
  strings, buffers, \<^verbatim>\<open>new Error(message)\<close> and the errors of \<^verbatim>\<open>fs\<close>.
\<close>

datatype jsval =
    Undefined
  | Null
  | Bool bool
  | Num int
  | Str string
  | Buffer bytes
  | Error string
  | SysError errno

text \<open>JavaScript's truthiness, which \<^verbatim>\<open>if(err)\<close> and \<^verbatim>\<open>err || null\<close> test.\<close>

fun truthy :: "jsval \<Rightarrow> bool" where
  "truthy Undefined = False"
| "truthy Null = False"
| "truthy (Bool b) = b"
| "truthy (Num n) = (n \<noteq> 0)"
| "truthy (Str s) = (s \<noteq> [])"
| "truthy (Buffer b) = True"
| "truthy (Error m) = True"
| "truthy (SysError e) = True"

definition js_or :: "jsval \<Rightarrow> jsval \<Rightarrow> jsval" where
  "js_or a b = (if truthy a then a else b)"

text \<open>The \<^verbatim>\<open>contents\<close> argument of \<^verbatim>\<open>saveFile\<close>: \<^verbatim>\<open>{Buffer|string}\<close>.\<close>

datatype contents = CStr string | CBuf bytes

definition utf8 :: "string \<Rightarrow> bytes" where
  "utf8 s = map (\<lambda>c. of_nat (of_char c)) s"

text \<open>
  \<^verbatim>\<open>if(typeof contents === 'string') { contents = new Buffer(contents, 'utf8'); }\<close>
\<close>

fun toBuffer :: "contents \<Rightarrow> bytes" where
  "toBuffer (CStr s) = utf8 s"
| "toBuffer (CBuf b) = b"

section \<open>The FileStorage object\<close>

text \<open>
  A listener of the \<^verbatim>\<open>save\<close> event is called with \<^verbatim>\<open>(filename, contents, callback)\<close>,
  one of the \<^verbatim>\<open>read\<close> event with \<^verbatim>\<open>(filename, callback)\<close>. What the module can
  observe of a listener is the calls it makes to that callback: a listener is modelled
  by the list of the arguments of these calls, in order (none when it never answers).
\<close>

type_synonym save_listener = "string \<Rightarrow> bytes \<Rightarrow> jsval list"
type_synonym read_listener = "string \<Rightarrow> (jsval \<times> jsval) list"

text \<open>
  The fields \<^verbatim>\<open>_directory\<close> and \<^verbatim>\<open>_directoryCreated\<close>, and the listeners the
  inherited \<^verbatim>\<open>EventEmitter\<close> keeps for the two events. \<^const>\<open>None\<close> is \<^verbatim>\<open>null\<close>;
  the constructor's parameter is documented as a string.
\<close>

record FileStorage =
  directory :: "string option"
  directoryCreated :: "bool option"
  saveListeners :: "save_listener list"
  readListeners :: "read_listener list"

text \<open>The setter of the property \<^verbatim>\<open>directory\<close>.\<close>

definition set_directory :: "FileStorage \<Rightarrow> string option \<Rightarrow> FileStorage" where
  "set_directory this newDir = this\<lparr>directory := newDir, directoryCreated := Some False\<rparr>"

text \<open>
  The constructor: \<^verbatim>\<open>this._directory = null; this._directoryCreated = null;
  this.directory = directory;\<close>
\<close>

definition new_FileStorage :: "string option \<Rightarrow> FileStorage" where
  "new_FileStorage dir =
     set_directory
       \<lparr>directory = None, directoryCreated = None, saveListeners = [], readListeners = []\<rparr>
       dir"

text \<open>\<^verbatim>\<open>on('save', listener)\<close> and \<^verbatim>\<open>on('read', listener)\<close> of the event emitter.\<close>

definition on_save :: "FileStorage \<Rightarrow> save_listener \<Rightarrow> FileStorage" where
  "on_save this l = this\<lparr>saveListeners := saveListeners this @ [l]\<rparr>"

definition on_read :: "FileStorage \<Rightarrow> read_listener \<Rightarrow> FileStorage" where
  "on_read this l = this\<lparr>readListeners := readListeners this @ [l]\<rparr>"

text \<open>
  \<^verbatim>\<open>return (this.listeners('save').length > 0 && this.listeners('read').length > 0)
           || this.directory !== null;\<close>
\<close>

definition isEnabled :: "FileStorage \<Rightarrow> bool" where
  "isEnabled this =
     ((length (saveListeners this) > 0 \<and> length (readListeners this) > 0)
      \<or> directory this \<noteq> None)"

section \<open>The file system and the event log\<close>

text \<open>
  The module reaches the disk through \<^verbatim>\<open>fs.existsSync\<close>, \<^verbatim>\<open>fs.mkdirSync\<close>,
  \<^verbatim>\<open>fs.writeFile\<close> and \<^verbatim>\<open>fs.readFile\<close>. The disk is a POSIX tree without
  symbolic links and without permission checks: a map from locations (the names from the
  root) to nodes. Every call the module makes to \<^verbatim>\<open>fs\<close> and every event it emits is
  also appended to a journal, so that "performs no I/O" and "dispatches no handler" are
  statements about the state.
\<close>

datatype node = Dir nat | File bytes

type_synonym location = "string list"

datatype event =
    ExistsSync string
  | MkdirSync string nat
  | WriteFile string bytes
  | ReadFile string
  | EmitSave string bytes
  | EmitRead string

record world =
  cwd :: location
  nodes :: "location \<rightharpoonup> node"
  journal :: "event list"

definition record_event :: "world \<Rightarrow> event \<Rightarrow> world" where
  "record_event w e = w\<lparr>journal := journal w @ [e]\<rparr>"

text \<open>\<^verbatim>\<open>String.prototype.split\<close> with a one-character separator.\<close>

fun js_split :: "char \<Rightarrow> string \<Rightarrow> string list" where
  "js_split sep [] = [[]]"
| "js_split sep (c # cs) =
     (if c = sep then [] # js_split sep cs
      else (case js_split sep cs of [] \<Rightarrow> [[c]] | w # ws \<Rightarrow> (c # w) # ws))"

text \<open>
  Path resolution, one component at a time: the directory reached so far must be a
  directory; an empty component (a doubled or trailing separator) and \<^verbatim>\<open>.\<close> stay,
  \<^verbatim>\<open>..\<close> goes to the parent (the root is its own parent), a name goes to the child.
\<close>

definition step :: "location \<Rightarrow> string \<Rightarrow> location" where
  "step cur c =
     (if c = [] \<or> c = ''.'' then cur
      else if c = ''..'' then butlast cur
      else cur @ [c])"

fun descend :: "(location \<rightharpoonup> node) \<Rightarrow> location \<Rightarrow> string list \<Rightarrow> errno + location" where
  "descend m cur [] = (case m cur of None \<Rightarrow> Inl ENOENT | Some n \<Rightarrow> Inr cur)"
| "descend m cur (c # cs) =
     (case m cur of
        None \<Rightarrow> Inl ENOENT
      | Some (File b) \<Rightarrow> Inl ENOTDIR
      | Some (Dir md) \<Rightarrow> descend m (step cur c) cs)"

definition origin :: "world \<Rightarrow> string \<Rightarrow> location" where
  "origin w p = (case p of [] \<Rightarrow> cwd w | c # cs \<Rightarrow> if c = CHR ''/'' then [] else cwd w)"

definition lookup :: "world \<Rightarrow> string \<Rightarrow> errno + location" where
  "lookup w p =
     (if p = [] then Inl ENOENT
      else descend (nodes w) (origin w p) (js_split CHR ''/'' p))"

definition exists_path :: "world \<Rightarrow> string \<Rightarrow> bool" where
  "exists_path w p = (case lookup w p of Inl e \<Rightarrow> False | Inr l \<Rightarrow> True)"

text \<open>\<^verbatim>\<open>fs.existsSync(path)\<close>: the answer, and the call in the journal.\<close>

definition existsSync :: "world \<Rightarrow> string \<Rightarrow> bool \<times> world" where
  "existsSync w p = (exists_path w p, record_event w (ExistsSync p))"

definition strip_trailing :: "string list \<Rightarrow> string list" where
  "strip_trailing cs = rev (dropWhile (\<lambda>c. c = []) (rev cs))"

text \<open>
  \<^verbatim>\<open>fs.mkdirSync(path, mode)\<close>: the parent must resolve to a directory and the last
  name must be free. \<^const>\<open>Some\<close> is the exception it throws.
\<close>

definition mkdir_at :: "world \<Rightarrow> string \<Rightarrow> nat \<Rightarrow> errno option \<times> world" where
  "mkdir_at w p mode =
     (let comps = strip_trailing (js_split CHR ''/'' p) in
      if p = [] then (Some ENOENT, w)
      else if comps = [] then (Some EEXIST, w)
      else
        (case descend (nodes w) (origin w p) (butlast comps) of
           Inl e \<Rightarrow> (Some e, w)
         | Inr par \<Rightarrow>
             (case nodes w par of
                Some (Dir md) \<Rightarrow>
                  (let c = last comps in
                   if c = ''.'' \<or> c = ''..'' then (Some EEXIST, w)
                   else if nodes w (par @ [c]) \<noteq> None then (Some EEXIST, w)
                   else (None, w\<lparr>nodes := (nodes w)(par @ [c] \<mapsto> Dir mode)\<rparr>))
              | _ \<Rightarrow> (Some ENOTDIR, w))))"

definition mkdirSync :: "world \<Rightarrow> string \<Rightarrow> nat \<Rightarrow> errno option \<times> world" where
  "mkdirSync w p mode = mkdir_at (record_event w (MkdirSync p mode)) p mode"

text \<open>
  \<^verbatim>\<open>fs.writeFile(path, data, callback)\<close> is asynchronous: the call is recorded when it
  is made; \<open>writeFile_done\<close> is its completion, which creates or replaces the file and
  gives the first argument of the callback (\<^verbatim>\<open>null\<close> on success).
\<close>

definition fs_writeFile :: "world \<Rightarrow> string \<Rightarrow> bytes \<Rightarrow> world" where
  "fs_writeFile w p d = record_event w (WriteFile p d)"

definition writeFile_done :: "world \<Rightarrow> string \<Rightarrow> bytes \<Rightarrow> jsval \<times> world" where
  "writeFile_done w p d =
     (let comps = js_split CHR ''/'' p in
      if p = [] then (SysError ENOENT, w)
      else
        (case descend (nodes w) (origin w p) (butlast comps) of
           Inl e \<Rightarrow> (SysError e, w)
         | Inr par \<Rightarrow>
             (case nodes w par of
                Some (Dir md) \<Rightarrow>
                  (let c = last comps in
                   if c = [] \<or> c = ''.'' \<or> c = ''..'' then (SysError EISDIR, w)
                   else
                     (case nodes w (par @ [c]) of
                        Some (Dir md') \<Rightarrow> (SysError EISDIR, w)
                      | _ \<Rightarrow> (Null, w\<lparr>nodes := (nodes w)(par @ [c] \<mapsto> File d)\<rparr>)))
              | _ \<Rightarrow> (SysError ENOTDIR, w))))"

text \<open>
  \<^verbatim>\<open>fs.readFile(path, callback)\<close>: the call, and the two arguments its completion
  passes to the callback.
\<close>

definition fs_readFile :: "world \<Rightarrow> string \<Rightarrow> world" where
  "fs_readFile w p = record_event w (ReadFile p)"

definition readFile_done :: "world \<Rightarrow> string \<Rightarrow> jsval \<times> jsval" where
  "readFile_done w p =
     (case lookup w p of
        Inl e \<Rightarrow> (SysError e, Undefined)
      | Inr l \<Rightarrow>
          (case nodes w l of
             Some (File d) \<Rightarrow> (Null, Buffer d)
           | _ \<Rightarrow> (SysError EISDIR, Undefined)))"

section \<open>The directory-creation helper\<close>

text \<open>The mode \<^verbatim>\<open>0o750\<close>.\<close>

definition mode_0750 :: nat where
  "mode_0750 = 7 * 64 + 5 * 8 + 0"

text \<open>\<^verbatim>\<open>dir.replace(/\\/g, '/')\<close>\<close>

definition replace_backslashes :: "string \<Rightarrow> string" where
  "replace_backslashes s = map (\<lambda>c. if c = CHR 0x5C then CHR ''/'' else c) s"

text \<open>
  The assignment to \<^verbatim>\<open>path\<close> in the body of the \<^verbatim>\<open>forEach\<close>:
  \<^verbatim>\<open>if(index === 0 && !dir) { path = '/'; } else { path += (path ? '/' : '') + dir; }\<close>
\<close>

definition next_path :: "string \<Rightarrow> nat \<Rightarrow> string \<Rightarrow> string" where
  "next_path path index dir =
     (if index = 0 \<and> dir = [] then ''/''
      else path @ (if path \<noteq> [] then ''/'' else []) @ dir)"

text \<open>
  The \<^verbatim>\<open>forEach\<close> over the segments, with the variable \<^verbatim>\<open>path\<close> it updates and
  the index: \<^verbatim>\<open>if(!fs.existsSync(path)) { fs.mkdirSync(path, 0o750); }\<close>. An exception
  of \<^verbatim>\<open>mkdirSync\<close> ends the loop.
\<close>

fun forEach_dir :: "world \<Rightarrow> string \<Rightarrow> nat \<Rightarrow> string list \<Rightarrow> errno option \<times> world" where
  "forEach_dir w path index [] = (None, w)"
| "forEach_dir w path index (dir # rest) =
     (let path' = next_path path index dir;
          (ex, w1) = existsSync w path'
      in if \<not> ex then
           (case mkdirSync w1 path' mode_0750 of
              (Some e, w2) \<Rightarrow> (Some e, w2)
            | (None, w2) \<Rightarrow> forEach_dir w2 path' (index + 1) rest)
         else forEach_dir w1 path' (index + 1) rest)"

text \<open>\<^verbatim>\<open>if(!dir) { return; }\<close> covers \<^verbatim>\<open>null\<close> and the empty string.\<close>

definition checkDirExists :: "world \<Rightarrow> string option \<Rightarrow> errno option \<times> world" where
  "checkDirExists w dir =
     (case dir of
        None \<Rightarrow> (None, w)
      | Some d \<Rightarrow>
          if d = [] then (None, w)
          else forEach_dir w [] 0 (js_split CHR ''/'' (replace_backslashes d)))"

section \<open>saveFile and readFile\<close>

text \<open>\<^verbatim>\<open>new Error("File storage system is not enabled")\<close>\<close>

definition not_enabled :: jsval where
  "not_enabled = Error ''File storage system is not enabled''"

text \<open>
  \<^verbatim>\<open>emit\<close> calls the listeners of the event in the order of their registration; the
  result lists the calls they make to the callback they are handed.
\<close>

definition emit_save :: "FileStorage \<Rightarrow> world \<Rightarrow> string \<Rightarrow> bytes \<Rightarrow> world \<times> jsval list" where
  "emit_save this w filename buf =
     (record_event w (EmitSave filename buf),
      concat (map (\<lambda>l. l filename buf) (saveListeners this)))"

definition emit_read :: "FileStorage \<Rightarrow> world \<Rightarrow> string \<Rightarrow> world \<times> (jsval \<times> jsval) list" where
  "emit_read this w filename =
     (record_event w (EmitRead filename),
      concat (map (\<lambda>l. l filename) (readListeners this)))"

text \<open>
  \<^verbatim>\<open>this.directory + '/' + filename\<close>: string concatenation prints \<^verbatim>\<open>null\<close> as
  the four letters.
\<close>

definition local_path :: "FileStorage \<Rightarrow> string \<Rightarrow> string" where
  "local_path this filename =
     (case directory this of None \<Rightarrow> ''null'' | Some d \<Rightarrow> d) @ ''/'' @ filename"

text \<open>
  What a call of \<^verbatim>\<open>saveFile\<close> has done when it returns: it has called the callback
  (with the listed first arguments, none when there is no callback or no listener
  answered), or it has handed a write to \<^verbatim>\<open>fs.writeFile\<close> that completes later, or
  \<^verbatim>\<open>fs.mkdirSync\<close> has thrown.
\<close>

datatype save_outcome =
    SaveReplied "jsval list"
  | WritePending string bytes
  | SaveThrew errno

record save_result =
  sv_store :: FileStorage
  sv_world :: world
  sv_outcome :: save_outcome

text \<open>
  \<^verbatim>\<open>saveFile(filename, contents, callback)\<close>; the argument \<open>callback\<close> tells whether
  a callback was given. The function handed to the \<^verbatim>\<open>save\<close> listeners is
  \<^verbatim>\<open>function(err) { if(callback) { callback(err || null); } }\<close>.
\<close>

definition saveFile ::
  "FileStorage \<Rightarrow> world \<Rightarrow> string \<Rightarrow> contents \<Rightarrow> bool \<Rightarrow> save_result" where
  "saveFile this w filename contents callback =
     (if \<not> isEnabled this then
        \<lparr>sv_store = this, sv_world = w,
         sv_outcome = SaveReplied (if callback then [not_enabled] else [])\<rparr>
      else
        (let buf = toBuffer contents in
         if length (saveListeners this) > 0 then
           (let (w', errs) = emit_save this w filename buf in
            \<lparr>sv_store = this, sv_world = w',
             sv_outcome =
               SaveReplied (if callback then map (\<lambda>err. js_or err Null) errs else [])\<rparr>)
         else
           (case checkDirExists w (directory this) of
              (Some e, w') \<Rightarrow> \<lparr>sv_store = this, sv_world = w', sv_outcome = SaveThrew e\<rparr>
            | (None, w') \<Rightarrow>
                \<lparr>sv_store = this\<lparr>directoryCreated := Some True\<rparr>,
                 sv_world = fs_writeFile w' (local_path this filename) buf,
                 sv_outcome = WritePending (local_path this filename) buf\<rparr>)))"

datatype read_outcome =
    ReadReplied "(jsval \<times> jsval) list"
  | ReadPending string

record read_result =
  rd_world :: world
  rd_outcome :: read_outcome

text \<open>
  \<^verbatim>\<open>readFile(filename, callback)\<close>; it assigns no field of the object. The callback
  goes to the listeners as it is.
\<close>

definition readFile :: "FileStorage \<Rightarrow> world \<Rightarrow> string \<Rightarrow> read_result" where
  "readFile this w filename =
     (if \<not> isEnabled this then
        \<lparr>rd_world = w, rd_outcome = ReadReplied [(not_enabled, Undefined)]\<rparr>
      else if length (readListeners this) > 0 then
        (let (w', replies) = emit_read this w filename in
         \<lparr>rd_world = w', rd_outcome = ReadReplied replies\<rparr>)
      else
        \<lparr>rd_world = fs_readFile w (local_path this filename),
         rd_outcome = ReadPending (local_path this filename)\<rparr>)"

text \<open>
  One call followed to its end: the pending request of \<^verbatim>\<open>fs\<close> completes and calls the
  callback.
\<close>

record save_run =
  store_after :: FileStorage
  world_after :: world
  callback_calls :: "jsval list"
  thrown :: "errno option"

definition run_saveFile ::
  "FileStorage \<Rightarrow> world \<Rightarrow> string \<Rightarrow> contents \<Rightarrow> bool \<Rightarrow> save_run" where
  "run_saveFile this w filename contents callback =
     (let r = saveFile this w filename contents callback in
      case sv_outcome r of
        SaveReplied errs \<Rightarrow>
          \<lparr>store_after = sv_store r, world_after = sv_world r,
           callback_calls = errs, thrown = None\<rparr>
      | WritePending p d \<Rightarrow>
          (let (err, w') = writeFile_done (sv_world r) p d in
           \<lparr>store_after = sv_store r, world_after = w',
            callback_calls = (if callback then [err] else []), thrown = None\<rparr>)
      | SaveThrew e \<Rightarrow>
          \<lparr>store_after = sv_store r, world_after = sv_world r,
           callback_calls = [], thrown = Some e\<rparr>)"

definition run_readFile :: "FileStorage \<Rightarrow> world \<Rightarrow> string \<Rightarrow> world \<times> (jsval \<times> jsval) list" where
  "run_readFile this w filename =
     (let r = readFile this w filename in
      case rd_outcome r of
        ReadReplied replies \<Rightarrow> (rd_world r, replies)
      | ReadPending p \<Rightarrow> (rd_world r, [readFile_done (rd_world r) p]))"

section \<open>The batch operations\<close>








text \<open>
  The object the callback inside \<^verbatim>\<open>readFiles\<close> builds:
  \<^verbatim>\<open>var response = {"filename": filename};
  if(err) { response.error = err; } else { response.contents = file; }\<close>
\<close>

record response =
  filename :: string
  error :: "jsval option"
  contents :: "jsval option"

definition read_response :: "string \<Rightarrow> jsval \<times> jsval \<Rightarrow> response" where
  "read_response name reply =
     (if truthy (fst reply) then \<lparr>filename = name, error = Some (fst reply), contents = None\<rparr>
      else \<lparr>filename = name, error = None, contents = Some (snd reply)\<rparr>)"

text \<open>
  \<^verbatim>\<open>results[index] = v\<close> on a JavaScript array: an index past the end extends the array
  and leaves holes (\<^const>\<open>None\<close>).
\<close>

definition array_set :: "'a option list \<Rightarrow> nat \<Rightarrow> 'a \<Rightarrow> 'a option list" where
  "array_set xs i v =
     (if i < length xs then xs[i := Some v]
      else xs @ replicate (i - length xs) None @ [Some v])"

record map_state =
  results :: "response option list"
  map_completed :: nat
  map_final :: "(jsval \<times> response option list) option"

definition map_start :: "nat \<Rightarrow> map_state" where
  "map_start n =
     \<lparr>results = [], map_completed = 0, map_final = (if n = 0 then Some (Null, []) else None)\<rparr>"

text \<open>
  The callback \<^verbatim>\<open>Async.map\<close> hands to the iterator for the element of index \<open>i\<close>: it
  stores the value and reports the completion; the final callback receives the array.
\<close>

definition map_done :: "nat \<Rightarrow> map_state \<Rightarrow> nat \<Rightarrow> jsval \<Rightarrow> response \<Rightarrow> map_state" where
  "map_done n st i err v =
     (let res = array_set (results st) i v in
      if map_final st \<noteq> None then st\<lparr>results := res\<rparr>
      else if truthy err then st\<lparr>results := res, map_final := Some (err, res)\<rparr>
      else if map_completed st + 1 \<ge> n then
        \<lparr>results = res, map_completed = map_completed st + 1, map_final = Some (Null, res)\<rparr>
      else \<lparr>results = res, map_completed = map_completed st + 1, map_final = None\<rparr>)"

text \<open>The synchronous part of \<^verbatim>\<open>readFiles\<close>: \<^verbatim>\<open>self.readFile(filename, ...)\<close> in order.\<close>

fun start_reads :: "FileStorage \<Rightarrow> world \<Rightarrow> string list \<Rightarrow> world \<times> read_outcome list" where
  "start_reads this w [] = (w, [])"
| "start_reads this w (name # rest) =
     (let r = readFile this w name;
          (w', outs) = start_reads this (rd_world r) rest
      in (w', rd_outcome r # outs))"

text \<open>
  The completions in the order \<open>sched\<close>: every answer to the read of index \<open>i\<close> goes
  through the callback of \<^verbatim>\<open>readFiles\<close>, which ends with \<^verbatim>\<open>cb(null, response)\<close>.
\<close>

definition replies_of :: "world \<Rightarrow> read_outcome \<Rightarrow> (jsval \<times> jsval) list" where
  "replies_of w out =
     (case out of ReadReplied replies \<Rightarrow> replies | ReadPending p \<Rightarrow> [readFile_done w p])"

fun settle_reads ::
  "world \<Rightarrow> string list \<Rightarrow> read_outcome list \<Rightarrow> map_state \<Rightarrow> nat list \<Rightarrow> map_state" where
  "settle_reads w names outs st [] = st"
| "settle_reads w names outs st (i # sched) =
     (if i < length outs \<and> i < length names then
        settle_reads w names outs
          (foldl (\<lambda>st reply. map_done (length names) st i Null (read_response (names ! i) reply))
             st (replies_of w (outs ! i)))
          sched
      else settle_reads w names outs st sched)"

record reads_run =
  reads_world :: world
  reads_calls :: "(jsval \<times> response option list) list"

text \<open>
  \<^verbatim>\<open>Async.map(filenames, function(filename, cb) { self.readFile(filename,
  function(err, file) { ...; cb(null, response); }); }, callback);\<close>
\<close>

definition readFiles :: "FileStorage \<Rightarrow> world \<Rightarrow> string list \<Rightarrow> nat list \<Rightarrow> reads_run" where
  "readFiles this w filenames sched =
     (let (w1, outs) = start_reads this w filenames;
          st = settle_reads w1 filenames outs (map_start (length filenames)) sched
      in \<lparr>reads_world = w1,
          reads_calls = (case map_final st of None \<Rightarrow> [] | Some c \<Rightarrow> [c])\<rparr>)"

section \<open>Reading the journal\<close>

fun is_emit :: "event \<Rightarrow> bool" where
  "is_emit (EmitSave name buf) = True"
| "is_emit (EmitRead name) = True"
| "is_emit e = False"

fun is_mkdir :: "event \<Rightarrow> bool" where
  "is_mkdir (MkdirSync p mode) = True"
| "is_mkdir e = False"

text \<open>
  The values the variable \<^verbatim>\<open>path\<close> of \<^verbatim>\<open>checkDirExists\<close> takes, in order: one for
  every segment of the directory.
\<close>

fun walk_paths :: "string \<Rightarrow> nat \<Rightarrow> string list \<Rightarrow> string list" where
  "walk_paths path index [] = []"
| "walk_paths path index (dir # rest) =
     next_path path index dir # walk_paths (next_path path index dir) (index + 1) rest"

definition dir_prefixes :: "string \<Rightarrow> string list" where
  "dir_prefixes d = walk_paths [] 0 (js_split CHR ''/'' (replace_backslashes d))"


text \<open>The walk of \<^verbatim>\<open>checkDirExists\<close> has nothing to create.\<close>

definition prefixes_exist :: "world \<Rightarrow> string option \<Rightarrow> bool" where
  "prefixes_exist w dir =
     (case dir of
        None \<Rightarrow> True
      | Some d \<Rightarrow> d = [] \<or> list_all (exists_path w) (dir_prefixes d))"

section \<open>The directory walk as the specification describes it\<close>












section \<open>Example states\<close>

text \<open>A disk with the root, a working directory \<^verbatim>\<open>/home\<close> and a directory \<^verbatim>\<open>/a\<close>.\<close>

definition example_disk :: world where
  "example_disk =
     \<lparr>cwd = [''home''],
      nodes = [[] \<mapsto> Dir 493, [''home''] \<mapsto> Dir 493, [''a''] \<mapsto> Dir 493],
      journal = []\<rparr>"


text \<open>A \<^verbatim>\<open>save\<close> listener that reports a failure, and one that reports success.\<close>

definition failing_saver :: save_listener where
  "failing_saver name buf = [Error ''quota'']"

definition accepting_saver :: save_listener where
  "accepting_saver name buf = [Undefined]"

text \<open>A \<^verbatim>\<open>read\<close> listener that knows one file.\<close>

definition memory_reader :: read_listener where
  "memory_reader name =
     (if name = ''a'' then [(Null, Buffer [1, 2])] else [(Error ''no such file'', Undefined)])"

text \<open>A \<^verbatim>\<open>read\<close> listener that never calls its callback.\<close>

definition silent_reader :: read_listener where
  "silent_reader name = []"

section \<open>Enablement\<close>

text \<open>
  C3. \<^verbatim>\<open>isEnabled()\<close> is true exactly when a directory is set (the field is not
  \<^verbatim>\<open>null\<close>) or both a \<^verbatim>\<open>save\<close> and a \<^verbatim>\<open>read\<close> listener are registered; one
  kind of listener alone does not enable a store without directory. The check is a
  function of the object that returns a boolean and nothing else: it has no state to
  change.
\<close>

theorem isEnabled_iff:
  "(isEnabled this \<longleftrightarrow>
      directory this \<noteq> None \<or> (saveListeners this \<noteq> [] \<and> readListeners this \<noteq> []))
   \<and> (directory this = None \<and> readListeners this = [] \<longrightarrow> \<not> isEnabled this)
   \<and> (directory this = None \<and> saveListeners this = [] \<longrightarrow> \<not> isEnabled this)"
  by (auto simp: isEnabled_def)

theorem isEnabled_iff_witness:
  "\<not> isEnabled (on_save (new_FileStorage None) accepting_saver)
   \<and> \<not> isEnabled (on_read (new_FileStorage None) memory_reader)
   \<and> isEnabled (on_read (on_save (new_FileStorage None) accepting_saver) memory_reader)
   \<and> isEnabled (new_FileStorage (Some ''d''))"
  using isEnabled_iff [of "on_save (new_FileStorage None) accepting_saver"]
    isEnabled_iff [of "on_read (new_FileStorage None) memory_reader"]
    isEnabled_iff [of "on_read (on_save (new_FileStorage None) accepting_saver) memory_reader"]
    isEnabled_iff [of "new_FileStorage (Some ''d'')"]
  by (simp add: on_save_def on_read_def new_FileStorage_def set_directory_def)

section \<open>A disabled store\<close>

text \<open>
  C1. When \<^verbatim>\<open>isEnabled()\<close> is false, the directory is \<^verbatim>\<open>null\<close> and a \<^verbatim>\<open>save\<close> or a
  \<^verbatim>\<open>read\<close> listener is missing; \<^verbatim>\<open>saveFile\<close> (given a callback) and \<^verbatim>\<open>readFile\<close>
  call the callback once, with the error "File storage system is not enabled", and leave
  the object, the disk and the journal as they were: no call to \<^verbatim>\<open>fs\<close>, no event
  emitted.
\<close>

theorem disabled_fails_fast:
  assumes "\<not> isEnabled this"
  shows "directory this = None \<and> (saveListeners this = [] \<or> readListeners this = [])
    \<and> saveFile this w name c True =
        \<lparr>sv_store = this, sv_world = w, sv_outcome = SaveReplied [not_enabled]\<rparr>
    \<and> run_saveFile this w name c True =
        \<lparr>store_after = this, world_after = w, callback_calls = [not_enabled], thrown = None\<rparr>
    \<and> readFile this w name =
        \<lparr>rd_world = w, rd_outcome = ReadReplied [(not_enabled, Undefined)]\<rparr>
    \<and> run_readFile this w name = (w, [(not_enabled, Undefined)])"
  using assms
  by (auto simp: isEnabled_def saveFile_def readFile_def run_saveFile_def run_readFile_def)

theorem disabled_fails_fast_witness:
  "run_saveFile (on_save (new_FileStorage None) accepting_saver) example_disk ''f'' (CStr ''hi'') True =
     \<lparr>store_after = on_save (new_FileStorage None) accepting_saver, world_after = example_disk,
      callback_calls = [Error ''File storage system is not enabled''], thrown = None\<rparr>
   \<and> run_readFile (on_save (new_FileStorage None) accepting_saver) example_disk ''f'' =
       (example_disk, [(Error ''File storage system is not enabled'', Undefined)])"
proof -
  have "\<not> isEnabled (on_save (new_FileStorage None) accepting_saver)"
    by (simp add: isEnabled_def on_save_def new_FileStorage_def set_directory_def)
  from disabled_fails_fast [OF this, of example_disk "''f''" "CStr ''hi''"]
  show ?thesis by (simp add: not_enabled_def)
qed

text \<open>
  C10. \<^verbatim>\<open>saveFile\<close> without a callback on a disabled store returns and that is all:
  nothing is thrown, no callback is called, and the object, the disk and the journal are
  unchanged.
\<close>

theorem disabled_save_without_callback:
  assumes "\<not> isEnabled this"
  shows "run_saveFile this w name c False =
           \<lparr>store_after = this, world_after = w, callback_calls = [], thrown = None\<rparr>"
  using assms by (simp add: saveFile_def run_saveFile_def)

theorem disabled_save_without_callback_witness:
  "run_saveFile (new_FileStorage None) example_disk ''f'' (CBuf [1]) False =
     \<lparr>store_after = new_FileStorage None, world_after = example_disk,
      callback_calls = [], thrown = None\<rparr>"
proof -
  have "\<not> isEnabled (new_FileStorage None)"
    by (simp add: isEnabled_def new_FileStorage_def set_directory_def)
  from disabled_save_without_callback [OF this] show ?thesis .
qed

section \<open>The journal of the directory walk\<close>

lemma journal_record_event [simp]: "journal (record_event w e) = journal w @ [e]"
  and nodes_record_event [simp]: "nodes (record_event w e) = nodes w"
  and cwd_record_event [simp]: "cwd (record_event w e) = cwd w"
  by (simp_all add: record_event_def)

lemma mkdir_at_journal [simp]: "journal (snd (mkdir_at w p mode)) = journal w"
  by (simp add: mkdir_at_def Let_def split: sum.splits option.splits node.splits)

lemma mkdir_at_cwd [simp]: "cwd (snd (mkdir_at w p mode)) = cwd w"
  by (simp add: mkdir_at_def Let_def split: sum.splits option.splits node.splits)

text \<open>One round of the loop, with the calls to \<^verbatim>\<open>fs\<close> unfolded.\<close>

lemma forEach_dir_Cons:
  "forEach_dir w path i (dir # rest) =
     (if exists_path w (next_path path i dir)
      then forEach_dir (record_event w (ExistsSync (next_path path i dir)))
             (next_path path i dir) (i + 1) rest
      else
        (case mkdir_at
                (record_event (record_event w (ExistsSync (next_path path i dir)))
                   (MkdirSync (next_path path i dir) mode_0750))
                (next_path path i dir) mode_0750 of
           (Some e, w2) \<Rightarrow> (Some e, w2)
         | (None, w2) \<Rightarrow> forEach_dir w2 (next_path path i dir) (i + 1) rest))"
  by (simp add: existsSync_def mkdirSync_def Let_def)

lemma forEach_dir_journal:
  "\<exists>evs. journal (snd (forEach_dir w path i segs)) = journal w @ evs \<and> (\<forall>e\<in>set evs. \<not> is_emit e)"
proof (induction segs arbitrary: w path i)
  case Nil
  then show ?case by simp
next
  case (Cons dir rest)
  define p where "p = next_path path i dir"
  define w1 where "w1 = record_event w (ExistsSync p)"
  define w1' where "w1' = record_event w1 (MkdirSync p mode_0750)"
  show ?case
  proof (cases "exists_path w p")
    case True
    from Cons.IH[of w1 p "i + 1"]
    obtain evs where "journal (snd (forEach_dir w1 p (i + 1) rest)) = journal w1 @ evs"
      "\<forall>e\<in>set evs. \<not> is_emit e" by blast
    with True show ?thesis
      unfolding forEach_dir_Cons p_def[symmetric] w1_def[symmetric]
      by (auto simp: w1_def intro!: exI[of _ "ExistsSync p # evs"])
  next
    case False
    obtain t w2 where m: "mkdir_at w1' p mode_0750 = (t, w2)" by (cases "mkdir_at w1' p mode_0750")
    have j2: "journal w2 = journal w @ [ExistsSync p, MkdirSync p mode_0750]"
      using m mkdir_at_journal[of w1' p mode_0750] by (simp add: w1_def w1'_def)
    show ?thesis
    proof (cases t)
      case None
      from Cons.IH[of w2 p "i + 1"]
      obtain evs where "journal (snd (forEach_dir w2 p (i + 1) rest)) = journal w2 @ evs"
        "\<forall>e\<in>set evs. \<not> is_emit e" by blast
      with False m None j2 show ?thesis
        unfolding forEach_dir_Cons p_def[symmetric] w1_def[symmetric] w1'_def[symmetric]
        by (auto intro!: exI[of _ "ExistsSync p # MkdirSync p mode_0750 # evs"])
    next
      case (Some e)
      with False m j2 show ?thesis
        unfolding forEach_dir_Cons p_def[symmetric] w1_def[symmetric] w1'_def[symmetric]
        by (auto intro!: exI[of _ "[ExistsSync p, MkdirSync p mode_0750]"])
    qed
  qed
qed

lemma checkDirExists_journal:
  "\<exists>evs. journal (snd (checkDirExists w dir)) = journal w @ evs \<and> (\<forall>e\<in>set evs. \<not> is_emit e)"
  using forEach_dir_journal by (auto simp: checkDirExists_def split: option.splits)

section \<open>Delegation to the listeners\<close>

text \<open>
  C8. On an enabled store with a \<^verbatim>\<open>save\<close> listener, \<^verbatim>\<open>saveFile\<close> only emits the
  event: the listeners receive the name and the contents as bytes (a string converted
  by UTF-8, a buffer as it is) and a completion function; the disk and the object are
  untouched and no call to \<^verbatim>\<open>fs\<close> is recorded. Each call a listener makes to the
  completion function reaches the callback; an error value (any truthy value, the values
  \<^verbatim>\<open>if(err)\<close> takes for an error) arrives unchanged, and a falsy value arrives as
  \<^verbatim>\<open>null\<close>.
\<close>

theorem save_handler_delegation:
  assumes "isEnabled this" and "saveListeners this \<noteq> []"
  shows "saveFile this w name c callback =
           \<lparr>sv_store = this,
            sv_world = w\<lparr>journal := journal w @ [EmitSave name (toBuffer c)]\<rparr>,
            sv_outcome = SaveReplied
              (if callback
               then map (\<lambda>err. if truthy err then err else Null)
                      (concat (map (\<lambda>l. l name (toBuffer c)) (saveListeners this)))
               else [])\<rparr>
     \<and> (\<forall>l err. saveListeners this = [l] \<and> l name (toBuffer c) = [err] \<and> truthy err \<longrightarrow>
            run_saveFile this w name c True =
              \<lparr>store_after = this,
               world_after = w\<lparr>journal := journal w @ [EmitSave name (toBuffer c)]\<rparr>,
               callback_calls = [err], thrown = None\<rparr>)
     \<and> (\<forall>str. c = CStr str \<longrightarrow> toBuffer c = utf8 str)
     \<and> (\<forall>buf. c = CBuf buf \<longrightarrow> toBuffer c = buf)"
  using assms
  by (auto simp: saveFile_def run_saveFile_def emit_save_def record_event_def js_or_def Let_def)

theorem save_handler_delegation_witness:
  "run_saveFile (on_save (new_FileStorage (Some ''d'')) failing_saver) example_disk ''f'' (CStr ''hi'') True =
     \<lparr>store_after = on_save (new_FileStorage (Some ''d'')) failing_saver,
      world_after = example_disk\<lparr>journal := [EmitSave ''f'' [104, 105]]\<rparr>,
      callback_calls = [Error ''quota''], thrown = None\<rparr>"
proof -
  let ?s = "on_save (new_FileStorage (Some ''d'')) failing_saver"
  have e: "isEnabled ?s" and l: "saveListeners ?s \<noteq> []"
    by (simp_all add: isEnabled_def on_save_def new_FileStorage_def set_directory_def)
  have "saveListeners ?s = [failing_saver] \<and> failing_saver ''f'' (toBuffer (CStr ''hi'')) = [Error ''quota'']
        \<and> truthy (Error ''quota'')"
    by (simp add: on_save_def new_FileStorage_def set_directory_def failing_saver_def)
  with save_handler_delegation [OF e l, of example_disk "''f''" "CStr ''hi''" True]
  show ?thesis by (simp add: utf8_def example_disk_def)
qed

text \<open>
  C9. With a directory set, each operation looks at the listeners of its own event
  only. With a \<^verbatim>\<open>save\<close> listener and no \<^verbatim>\<open>read\<close> listener, \<^verbatim>\<open>saveFile\<close> emits
  \<^verbatim>\<open>save\<close> and \<^verbatim>\<open>readFile\<close> hands \<^verbatim>\<open>directory/name\<close> to \<^verbatim>\<open>fs.readFile\<close>. With a
  \<^verbatim>\<open>read\<close> listener and no \<^verbatim>\<open>save\<close> listener, \<^verbatim>\<open>readFile\<close> emits \<^verbatim>\<open>read\<close> and
  \<^verbatim>\<open>saveFile\<close> walks the directory and hands \<^verbatim>\<open>directory/name\<close> to
  \<^verbatim>\<open>fs.writeFile\<close> (or passes on the exception of the walk), emitting nothing.
\<close>

theorem routing_per_operation:
  assumes "directory this = Some d"
  shows "(saveListeners this \<noteq> [] \<and> readListeners this = [] \<longrightarrow>
            saveFile this w name c cb =
              \<lparr>sv_store = this,
               sv_world = w\<lparr>journal := journal w @ [EmitSave name (toBuffer c)]\<rparr>,
               sv_outcome = SaveReplied
                 (if cb
                  then map (\<lambda>err. if truthy err then err else Null)
                         (concat (map (\<lambda>l. l name (toBuffer c)) (saveListeners this)))
                  else [])\<rparr>
          \<and> readFile this w name =
              \<lparr>rd_world = w\<lparr>journal := journal w @ [ReadFile (d @ ''/'' @ name)]\<rparr>,
               rd_outcome = ReadPending (d @ ''/'' @ name)\<rparr>)
     \<and> (saveListeners this = [] \<and> readListeners this \<noteq> [] \<longrightarrow>
            readFile this w name =
              \<lparr>rd_world = w\<lparr>journal := journal w @ [EmitRead name]\<rparr>,
               rd_outcome = ReadReplied (concat (map (\<lambda>l. l name) (readListeners this)))\<rparr>
          \<and> (case checkDirExists w (Some d) of
                (None, w') \<Rightarrow>
                  saveFile this w name c cb =
                    \<lparr>sv_store = this\<lparr>directoryCreated := Some True\<rparr>,
                     sv_world = w'\<lparr>journal := journal w' @ [WriteFile (d @ ''/'' @ name) (toBuffer c)]\<rparr>,
                     sv_outcome = WritePending (d @ ''/'' @ name) (toBuffer c)\<rparr>
              | (Some e, w') \<Rightarrow>
                  saveFile this w name c cb =
                    \<lparr>sv_store = this, sv_world = w', sv_outcome = SaveThrew e\<rparr>)
          \<and> filter is_emit (journal (sv_world (saveFile this w name c cb))) =
              filter is_emit (journal w))"
proof -
  have en: "isEnabled this" using assms by (simp add: isEnabled_def)
  have a: "saveListeners this \<noteq> [] \<Longrightarrow> saveFile this w name c cb =
              \<lparr>sv_store = this,
               sv_world = w\<lparr>journal := journal w @ [EmitSave name (toBuffer c)]\<rparr>,
               sv_outcome = SaveReplied
                 (if cb
                  then map (\<lambda>err. if truthy err then err else Null)
                         (concat (map (\<lambda>l. l name (toBuffer c)) (saveListeners this)))
                  else [])\<rparr>"
    using en by (auto simp: saveFile_def emit_save_def record_event_def js_or_def Let_def)
  have b: "readListeners this = [] \<Longrightarrow> readFile this w name =
              \<lparr>rd_world = w\<lparr>journal := journal w @ [ReadFile (d @ ''/'' @ name)]\<rparr>,
               rd_outcome = ReadPending (d @ ''/'' @ name)\<rparr>"
    using en assms by (simp add: readFile_def fs_readFile_def record_event_def local_path_def)
  have c: "readListeners this \<noteq> [] \<Longrightarrow> readFile this w name =
              \<lparr>rd_world = w\<lparr>journal := journal w @ [EmitRead name]\<rparr>,
               rd_outcome = ReadReplied (concat (map (\<lambda>l. l name) (readListeners this)))\<rparr>"
    using en by (simp add: readFile_def emit_read_def record_event_def)
  have d: "saveListeners this = [] \<Longrightarrow> (case checkDirExists w (Some d) of
                (None, w') \<Rightarrow>
                  saveFile this w name c cb =
                    \<lparr>sv_store = this\<lparr>directoryCreated := Some True\<rparr>,
                     sv_world = w'\<lparr>journal := journal w' @ [WriteFile (d @ ''/'' @ name) (toBuffer c)]\<rparr>,
                     sv_outcome = WritePending (d @ ''/'' @ name) (toBuffer c)\<rparr>
              | (Some e, w') \<Rightarrow>
                  saveFile this w name c cb =
                    \<lparr>sv_store = this, sv_world = w', sv_outcome = SaveThrew e\<rparr>)"
    using en assms
    by (simp add: saveFile_def fs_writeFile_def record_event_def local_path_def Let_def
        split: prod.splits option.splits)
  have e: "saveListeners this = [] \<Longrightarrow>
      filter is_emit (journal (sv_world (saveFile this w name c cb))) = filter is_emit (journal w)"
  proof -
    assume s: "saveListeners this = []"
    obtain evs where j: "journal (snd (checkDirExists w (Some d))) = journal w @ evs"
      and ne: "\<forall>e\<in>set evs. \<not> is_emit e"
      using checkDirExists_journal by blast
    from ne have f: "filter is_emit evs = []" by (simp add: filter_empty_conv)
    obtain t w' where cd: "checkDirExists w (Some d) = (t, w')" by (cases "checkDirExists w (Some d)")
    with j have j': "journal w' = journal w @ evs" by simp
    show ?thesis
      using d[OF s] cd j' f by (cases t) simp_all
  qed
  have p1: "saveListeners this \<noteq> [] \<and> readListeners this = [] \<longrightarrow>
            saveFile this w name c cb =
              \<lparr>sv_store = this,
               sv_world = w\<lparr>journal := journal w @ [EmitSave name (toBuffer c)]\<rparr>,
               sv_outcome = SaveReplied
                 (if cb
                  then map (\<lambda>err. if truthy err then err else Null)
                         (concat (map (\<lambda>l. l name (toBuffer c)) (saveListeners this)))
                  else [])\<rparr>
          \<and> readFile this w name =
              \<lparr>rd_world = w\<lparr>journal := journal w @ [ReadFile (d @ ''/'' @ name)]\<rparr>,
               rd_outcome = ReadPending (d @ ''/'' @ name)\<rparr>"
    using a b by simp
  have p2: "saveListeners this = [] \<and> readListeners this \<noteq> [] \<longrightarrow>
            readFile this w name =
              \<lparr>rd_world = w\<lparr>journal := journal w @ [EmitRead name]\<rparr>,
               rd_outcome = ReadReplied (concat (map (\<lambda>l. l name) (readListeners this)))\<rparr>
          \<and> (case checkDirExists w (Some d) of
                (None, w') \<Rightarrow>
                  saveFile this w name c cb =
                    \<lparr>sv_store = this\<lparr>directoryCreated := Some True\<rparr>,
                     sv_world = w'\<lparr>journal := journal w' @ [WriteFile (d @ ''/'' @ name) (toBuffer c)]\<rparr>,
                     sv_outcome = WritePending (d @ ''/'' @ name) (toBuffer c)\<rparr>
              | (Some e, w') \<Rightarrow>
                  saveFile this w name c cb =
                    \<lparr>sv_store = this, sv_world = w', sv_outcome = SaveThrew e\<rparr>)
          \<and> filter is_emit (journal (sv_world (saveFile this w name c cb))) =
              filter is_emit (journal w)"
    using c d e by (intro impI conjI) (erule conjE, assumption)+
  from p1 p2 show ?thesis by (rule conjI)
qed

theorem routing_per_operation_witness:
  "sv_outcome (saveFile (on_save (new_FileStorage (Some ''d'')) failing_saver) example_disk ''f'' (CBuf [7]) True)
     = SaveReplied [Error ''quota'']
   \<and> rd_outcome (readFile (on_save (new_FileStorage (Some ''d'')) failing_saver) example_disk ''f'')
     = ReadPending ''d/f''
   \<and> rd_outcome (readFile (on_read (new_FileStorage (Some ''d'')) memory_reader) example_disk ''a'')
     = ReadReplied [(Null, Buffer [1, 2])]
   \<and> sv_outcome (saveFile (on_read (new_FileStorage (Some ''d'')) memory_reader) example_disk ''f'' (CBuf [7]) True)
     = WritePending ''d/f'' [7]
   \<and> journal (sv_world (saveFile (on_read (new_FileStorage (Some ''d'')) memory_reader) example_disk ''f'' (CBuf [7]) True))
     = [ExistsSync ''d'', MkdirSync ''d'' 488, WriteFile ''d/f'' [7]]"
proof -
  let ?s = "on_save (new_FileStorage (Some ''d'')) failing_saver"
  let ?r = "on_read (new_FileStorage (Some ''d'')) memory_reader"
  have ds: "directory ?s = Some ''d''" and dr: "directory ?r = Some ''d''"
    by (simp_all add: on_save_def on_read_def new_FileStorage_def set_directory_def)
  have ls: "saveListeners ?s = [failing_saver]" "readListeners ?s = []"
    and lr: "saveListeners ?r = []" "readListeners ?r = [memory_reader]"
    by (simp_all add: on_save_def on_read_def new_FileStorage_def set_directory_def)
  have cd: "checkDirExists example_disk (Some ''d'') =
     (None, example_disk\<lparr>nodes := (nodes example_disk)([''home'', ''d''] \<mapsto> Dir 488),
        journal := [ExistsSync ''d'', MkdirSync ''d'' 488]\<rparr>)"
    by (simp add: example_disk_def checkDirExists_def replace_backslashes_def next_path_def
        existsSync_def exists_path_def lookup_def origin_def mkdirSync_def mkdir_at_def
        record_event_def strip_trailing_def step_def mode_0750_def Let_def)
  have s1: "sv_outcome (saveFile ?s example_disk ''f'' (CBuf [7]) True) = SaveReplied [Error ''quota'']"
    and s2: "rd_outcome (readFile ?s example_disk ''f'') = ReadPending ''d/f''"
    using routing_per_operation [OF ds, of example_disk "''f''" "CBuf [7]" True]
    by (simp_all add: ls failing_saver_def)
  have r1: "rd_outcome (readFile ?r example_disk ''a'') = ReadReplied [(Null, Buffer [1, 2])]"
    using routing_per_operation [OF dr, of example_disk "''a''" "CBuf [7]" True]
    by (simp add: lr memory_reader_def)
  have r2: "sv_outcome (saveFile ?r example_disk ''f'' (CBuf [7]) True) = WritePending ''d/f'' [7]"
    and r3: "journal (sv_world (saveFile ?r example_disk ''f'' (CBuf [7]) True))
       = [ExistsSync ''d'', MkdirSync ''d'' 488, WriteFile ''d/f'' [7]]"
    using routing_per_operation [OF dr, of example_disk "''f''" "CBuf [7]" True]
    by (simp_all add: lr cd)
  from s1 s2 r1 r2 r3 show ?thesis by simp
qed

section \<open>The flag \<^verbatim>\<open>_directoryCreated\<close>\<close>

text \<open>\<^verbatim>\<open>saveFile\<close> assigns the flag and never reads it.\<close>

lemma saveFile_ignores_directoryCreated:
  "sv_world (saveFile (this\<lparr>directoryCreated := b\<rparr>) w name c cb) = sv_world (saveFile this w name c cb)
   \<and> sv_outcome (saveFile (this\<lparr>directoryCreated := b\<rparr>) w name c cb) = sv_outcome (saveFile this w name c cb)"
  by (simp add: saveFile_def isEnabled_def emit_save_def local_path_def Let_def
      split: prod.splits option.splits)

text \<open>
  C4. The claim is that after a first local write the directory is marked as created
  and later local writes skip the walk. The code sets the mark, but on the second
  \<^verbatim>\<open>saveFile\<close> of a store with directory \<^verbatim>\<open>d\<close> the walk runs again:
  \<^verbatim>\<open>fs.existsSync('d')\<close> is called a second time although the mark is set.
\<close>

theorem second_save_repeats_walk:
  "(let r1 = run_saveFile (new_FileStorage (Some ''d'')) example_disk ''a'' (CBuf [1]) True;
        r2 = run_saveFile (store_after r1) (world_after r1) ''b'' (CBuf [2]) True
    in callback_calls r1 = [Null]
       \<and> directoryCreated (store_after r1) = Some True
       \<and> journal (world_after r1) = [ExistsSync ''d'', MkdirSync ''d'' 488, WriteFile ''d/a'' [1]]
       \<and> journal (world_after r2) = journal (world_after r1) @ [ExistsSync ''d'', WriteFile ''d/b'' [2]])"
  by (simp add: run_saveFile_def saveFile_def isEnabled_def new_FileStorage_def set_directory_def
        local_path_def fs_writeFile_def writeFile_done_def
        example_disk_def checkDirExists_def replace_backslashes_def next_path_def
        existsSync_def exists_path_def lookup_def origin_def mkdirSync_def mkdir_at_def
        record_event_def strip_trailing_def step_def mode_0750_def Let_def)

section \<open>Path resolution and new nodes\<close>

text \<open>
  Resolution only asks for directories along the way and for the existence of the last
  node, so it is preserved when nodes are added and files are replaced.
\<close>

lemma js_split_nonempty [simp]: "js_split sep s \<noteq> []"
  by (induction s) (auto split: list.splits)

lemma step_empty [simp]: "step cur [] = cur"
  by (simp add: step_def)






lemma origin_cwd: "cwd w' = cwd w \<Longrightarrow> origin w' p = origin w p"
  by (simp add: origin_def split: list.splits)

lemma origin_nodes_update [simp]: "origin (w\<lparr>nodes := m\<rparr>) p = origin w p"
  by (rule origin_cwd) simp

lemma origin_journal_update [simp]: "origin (w\<lparr>journal := j\<rparr>) p = origin w p"
  by (rule origin_cwd) simp

lemma origin_record_event [simp]: "origin (record_event w e) p = origin w p"
  by (simp add: record_event_def)

lemma lookup_record_event [simp]: "lookup (record_event w e) p = lookup w p"
  by (simp add: lookup_def)

lemma exists_path_record_event [simp]: "exists_path (record_event w e) p = exists_path w p"
  by (simp add: exists_path_def)




section \<open>The directory-creation helper creates what is missing\<close>



lemma replace_backslashes_idem [simp]:
  "replace_backslashes (replace_backslashes d) = replace_backslashes d"
  by (simp add: replace_backslashes_def)

lemma walk_paths_absolute:
  "path \<noteq> [] \<Longrightarrow> hd path = CHR ''/'' \<Longrightarrow> 0 < i \<Longrightarrow>
   \<forall>p\<in>set (walk_paths path i segs). p \<noteq> [] \<and> hd p = CHR ''/''"
proof (induction segs arbitrary: path i)
  case Nil
  show ?case by simp
next
  case (Cons dir rest)
  have np: "next_path path i dir = path @ ''/'' @ dir"
    using Cons.prems by (simp add: next_path_def)
  have a: "next_path path i dir \<noteq> []" "hd (next_path path i dir) = CHR ''/''"
    using Cons.prems(1,2) by (simp_all add: np)
  have b: "0 < i + 1" by simp
  from Cons.IH[OF a b] a show ?case by simp
qed

lemma dir_prefixes_absolute:
  assumes "d \<noteq> []" and "hd d = CHR ''/'' \<or> hd d = CHR 0x5C"
  shows "hd (dir_prefixes d) = ''/'' \<and> (\<forall>p\<in>set (dir_prefixes d). p \<noteq> [] \<and> hd p = CHR ''/'')"
proof -
  from assms obtain c r where d: "d = c # r" and c: "c = CHR ''/'' \<or> c = CHR 0x5C"
    by (cases d) auto
  have sp: "js_split CHR ''/'' (replace_backslashes d) = [] # js_split CHR ''/'' (replace_backslashes r)"
    using c by (auto simp: d replace_backslashes_def)
  have "\<forall>p\<in>set (walk_paths ''/'' (Suc 0) (js_split CHR ''/'' (replace_backslashes r))).
          p \<noteq> [] \<and> hd p = CHR ''/''"
    by (rule walk_paths_absolute) simp_all
  then show ?thesis by (simp add: dir_prefixes_def sp next_path_def)
qed


section \<open>Saving and reading back\<close>

lemma readFile_done_record_event [simp]:
  "readFile_done (record_event w e) p = readFile_done w p"
  by (simp add: readFile_done_def split: sum.splits)

lemma writeFile_done_journal [simp]: "journal (snd (writeFile_done w p d)) = journal w"
  by (simp add: writeFile_done_def Let_def split: sum.splits option.splits node.splits)




section \<open>The code's strings and the specification's\<close>








lemma map_append_Nil [simp]: "map ((@) []) xs = xs"
  by (induction xs) simp_all





section \<open>A clear way is walked without exception\<close>










section \<open>The directory-creation helper against the specification\<close>












section \<open>Saving a plain name and reading it back\<close>








section \<open>saveFiles\<close>





subsection \<open>Every started save answers once\<close>









subsection \<open>Only the first save can throw\<close>

lemma exists_path_journal [simp]: "exists_path (w\<lparr>journal := j\<rparr>) p = exists_path w p"
  by (simp add: exists_path_def lookup_def)

lemma prefixes_exist_record_event [simp]:
  "prefixes_exist (record_event w e) dir = prefixes_exist w dir"
  by (simp add: prefixes_exist_def list_all_iff split: option.splits)











end
